theory Spec2Isabelle
  imports Complex_Main "HOL-Library.AList"
begin

section \<open>Data model of \<open>elektrik_sebeke_akis.py\<close>\<close>

text \<open>
  The class \<open>ElektrikSebekesi\<close> keeps a \<open>networkx.DiGraph\<close> in \<open>self.G\<close> and a result
  dictionary in \<open>self.sonuclar\<close>. Python dictionaries keep their keys in insertion order,
  and the order in which the graph enumerates its edges decides the order of ties in
  \<open>darbogazlari_bul\<close>; so every dictionary is an association list, written with
  \<open>AList.update\<close> (an existing key keeps its place, a new key goes to the end) and
  \<open>AList.map_entry\<close> (change the value stored under a key).

  Node identifiers are hashable Python values: strings, integers, and tuples (a pair is
  what \<open>(u, v)\<close> builds at line 97). Numbers are modelled as exact reals; the rounding of
  Python floats is outside the model.
\<close>

datatype dugum = Metin string | Tam int | Demet dugum dugum

text \<open>A value stored in an edge's \<open>'akis'\<close> attribute: a number, or whatever the lookup
  \<open>flow_dict[(u, v)]\<close> yields, which for the solver's dictionary of dictionaries is an
  inner dictionary.\<close>

datatype deger = Sayi real | Sozluk "(dugum \<times> real) list"

datatype istisna = KeyError | TypeError | NetworkXError | NetworkXUnfeasible | NetworkXUnbounded

text \<open>The two messages the class prints (lines 64 and 116), by what they report: the
  pair of nodes without a line, and the exception caught.\<close>

datatype mesaj = HatBulunamadi dugum dugum | AkisSorunu istisna

record dugum_oz =
  talep :: real
  uretim :: real
  net :: real
  tip :: string

record hat_oz =
  kapasite :: real
  maliyet :: real
  akis :: deger

record mcf_hat =
  capacity :: real
  weight :: real

text \<open>
  A \<open>networkx.DiGraph\<close>: the node dictionary (\<open>None\<close> is the empty attribute dictionary
  of a node that \<open>add_edge\<close> created) and the successor dictionary of dictionaries.
\<close>

record ('n, 'e) digraph =
  dugumler :: "(dugum \<times> 'n option) list"
  komsuluk :: "(dugum \<times> (dugum \<times> 'e) list) list"

definition bos_graf :: "('n, 'e) digraph" where
  "bos_graf = \<lparr>dugumler = [], komsuluk = []\<rparr>"

text \<open>\<open>d.setdefault(k, v)\<close>: a missing key is appended, a present one is left alone.\<close>

definition varsay :: "'k \<Rightarrow> 'v \<Rightarrow> ('k \<times> 'v) list \<Rightarrow> ('k \<times> 'v) list" where
  "varsay k v al = (if k \<in> set (map fst al) then al else al @ [(k, v)])"

definition add_node :: "dugum \<Rightarrow> 'n \<Rightarrow> ('n, 'e) digraph \<Rightarrow> ('n, 'e) digraph" where
  "add_node n a g =
     g\<lparr>dugumler := AList.update n (Some a) (dugumler g),
       komsuluk := varsay n [] (komsuluk g)\<rparr>"

text \<open>\<open>add_edge\<close> creates each missing endpoint as a node without attributes, then
  stores the attribute dictionary under \<open>_adj[u][v]\<close>.\<close>

definition uc_ekle :: "dugum \<Rightarrow> ('n, 'e) digraph \<Rightarrow> ('n, 'e) digraph" where
  "uc_ekle n g =
     g\<lparr>dugumler := varsay n None (dugumler g),
       komsuluk := varsay n [] (komsuluk g)\<rparr>"

definition add_edge :: "dugum \<Rightarrow> dugum \<Rightarrow> 'e \<Rightarrow> ('n, 'e) digraph \<Rightarrow> ('n, 'e) digraph" where
  "add_edge u v e g =
     (let g2 = uc_ekle v (uc_ekle u g)
      in g2\<lparr>komsuluk := AList.map_entry u (AList.update v e) (komsuluk g2)\<rparr>)"

definition has_node :: "dugum \<Rightarrow> ('n, 'e) digraph \<Rightarrow> bool" where
  "has_node n g = (n \<in> set (map fst (dugumler g)))"

definition has_edge :: "dugum \<Rightarrow> dugum \<Rightarrow> ('n, 'e) digraph \<Rightarrow> bool" where
  "has_edge u v g =
     (case map_of (komsuluk g) u of
        None \<Rightarrow> False
      | Some nb \<Rightarrow> v \<in> set (map fst nb))"

text \<open>\<open>G.edges(data=True)\<close>: the nodes in insertion order, and under each node its
  successors in insertion order.\<close>

definition kenarlar :: "('n, 'e) digraph \<Rightarrow> (dugum \<times> dugum \<times> 'e) list" where
  "kenarlar g = concat (map (\<lambda>(u, nb). map (\<lambda>(v, d). (u, v, d)) nb) (komsuluk g))"

text \<open>\<open>G[u][v]['akis'] = x\<close>.\<close>

definition set_akis ::
  "dugum \<Rightarrow> dugum \<Rightarrow> deger \<Rightarrow> ('n, hat_oz) digraph \<Rightarrow> ('n, hat_oz) digraph" where
  "set_akis u v x g =
     g\<lparr>komsuluk := AList.map_entry u (AList.map_entry v (\<lambda>d. d\<lparr>akis := x\<rparr>)) (komsuluk g)\<rparr>"

type_synonym akis_sozlugu = "(dugum \<times> (dugum \<times> deger) list) list"

datatype sonuc_degeri = Akislar akis_sozlugu | Maliyet real

record sebeke =
  ad :: string
  G :: "(dugum_oz, hat_oz) digraph"
  sonuclar :: "(string \<times> sonuc_degeri) list"

text \<open>What a call of \<open>min_maliyet_akis_hesapla\<close> does: the value it returns, the lines
  it prints, and the object afterwards.\<close>

record cagri =
  donus :: "akis_sozlugu \<times> real"
  yazilan :: "mesaj list"
  nesne :: sebeke

section \<open>The operations\<close>

definition ElektrikSebekesi :: "string \<Rightarrow> sebeke" where
  "ElektrikSebekesi a = \<lparr>ad = a, G = bos_graf, sonuclar = []\<rparr>"

definition dugum_ekle :: "dugum \<Rightarrow> real \<Rightarrow> real \<Rightarrow> sebeke \<Rightarrow> sebeke" where
  "dugum_ekle dugum_id tlp urt s =
     (let net_deger = urt - tlp;
          dugum_tipi = (if net_deger > 0 then ''kaynak''
                        else if net_deger < 0 then ''hedef''
                        else ''transfer'')
      in s\<lparr>G := add_node dugum_id
                 \<lparr>talep = tlp, uretim = urt, net = net_deger, tip = dugum_tipi\<rparr> (G s)\<rparr>)"

text \<open>\<open>hat_ekle\<close> (lines 40--51); a caller that leaves \<open>akis\<close> out passes 0.\<close>

definition hat_ekle :: "dugum \<Rightarrow> dugum \<Rightarrow> real \<Rightarrow> real \<Rightarrow> real \<Rightarrow> sebeke \<Rightarrow> sebeke" where
  "hat_ekle kaynak hedef kap mal ak s =
     s\<lparr>G := add_edge kaynak hedef \<lparr>kapasite = kap, maliyet = mal, akis = Sayi ak\<rparr> (G s)\<rparr>"

text \<open>\<open>akis_ata\<close> (lines 53--65) returns \<open>self\<close>; the second component is what it
  prints.\<close>

definition akis_ata :: "dugum \<Rightarrow> dugum \<Rightarrow> real \<Rightarrow> sebeke \<Rightarrow> sebeke \<times> mesaj list" where
  "akis_ata kaynak hedef akis_degeri s =
     (if has_edge kaynak hedef (G s)
      then (s\<lparr>G := set_akis kaynak hedef (Sayi akis_degeri) (G s)\<rparr>, [])
      else (s, [HatBulunamadi kaynak hedef]))"

subsection \<open>\<open>min_maliyet_akis_hesapla\<close>\<close>

type_synonym mcf = "(real, mcf_hat) digraph"

text \<open>Lines 79--86. \<open>attr['tip']\<close> raises \<open>KeyError\<close> on a node without attributes.\<close>

fun dugumleri_aktar :: "(dugum \<times> dugum_oz option) list \<Rightarrow> mcf \<Rightarrow> istisna + mcf" where
  "dugumleri_aktar [] m = Inr m"
| "dugumleri_aktar ((node, None) # rest) m = Inl KeyError"
| "dugumleri_aktar ((node, Some attr) # rest) m =
     (if tip attr = ''kaynak'' then dugumleri_aktar rest (add_node node (- net attr) m)
      else if tip attr = ''hedef'' then dugumleri_aktar rest (add_node node (\<bar>net attr\<bar>) m)
      else dugumleri_aktar rest (add_node node 0 m))"

text \<open>Lines 89--90.\<close>

fun hatlari_aktar :: "(dugum \<times> dugum \<times> hat_oz) list \<Rightarrow> mcf \<Rightarrow> mcf" where
  "hatlari_aktar [] m = m"
| "hatlari_aktar ((u, v, d) # rest) m =
     hatlari_aktar rest (add_edge u v \<lparr>capacity = kapasite d, weight = maliyet d\<rparr> m)"

text \<open>
  \<open>nx.network_simplex\<close> is a library function and a parameter of the model: given the
  optimisation graph it raises, or returns the cost and the flow dictionary, which is a
  dictionary of dictionaries keyed by nodes (\<open>flow_dict[u][v]\<close> is the flow on \<open>(u, v)\<close>).
\<close>

type_synonym flow_dict = "(dugum \<times> (dugum \<times> real) list) list"

type_synonym simplex = "mcf \<Rightarrow> istisna + (real \<times> flow_dict)"

text \<open>Lines 96--100: the test is \<open>(u, v) in flow_dict\<close>, a lookup of the tuple among the
  keys of the outer dictionary.\<close>

definition yeni_akis :: "flow_dict \<Rightarrow> dugum \<Rightarrow> dugum \<Rightarrow> deger" where
  "yeni_akis flow_dict u v =
     (case map_of flow_dict (Demet u v) of
        Some x \<Rightarrow> Sozluk x
      | None \<Rightarrow> Sayi 0)"

fun akislari_yaz ::
  "flow_dict \<Rightarrow> (dugum \<times> dugum \<times> hat_oz) list \<Rightarrow> (dugum_oz, hat_oz) digraph
     \<Rightarrow> (dugum_oz, hat_oz) digraph" where
  "akislari_yaz flow_dict [] g = g"
| "akislari_yaz flow_dict ((u, v, d) # rest) g =
     akislari_yaz flow_dict rest (set_akis u v (yeni_akis flow_dict u v) g)"

text \<open>Lines 103--107.\<close>

fun akislari_topla :: "(dugum \<times> dugum \<times> hat_oz) list \<Rightarrow> akis_sozlugu \<Rightarrow> akis_sozlugu" where
  "akislari_topla [] akislar = akislar"
| "akislari_topla ((u, v, d) # rest) akislar =
     akislari_topla rest (AList.map_entry u (AList.update v (akis d)) (varsay u [] akislar))"

text \<open>Lines 76--90: the optimisation graph handed to the solver.\<close>

definition mcf_graph_kur :: "(dugum_oz, hat_oz) digraph \<Rightarrow> istisna + mcf" where
  "mcf_graph_kur g =
     (case dugumleri_aktar (dugumler g) bos_graf of
        Inl e \<Rightarrow> Inl e
      | Inr m \<Rightarrow> Inr (hatlari_aktar (kenarlar g) m))"

text \<open>The \<open>except\<close> branch, lines 115--117: it prints and returns \<open>({}, 0)\<close>. It is
  the only place where the method prints.\<close>

definition hata_donusu :: "istisna \<Rightarrow> sebeke \<Rightarrow> cagri" where
  "hata_donusu e s = \<lparr>donus = ([], 0), yazilan = [AkisSorunu e], nesne = s\<rparr>"

text \<open>
  The \<open>try\<close> block. Everything that can raise (the \<open>KeyError\<close> of line 81 and the
  solver's exceptions) comes before the first write to \<open>self.G\<close>, so the object that the
  \<open>except\<close> branch leaves behind is the object of the call.
\<close>

definition min_maliyet_akis_hesapla :: "simplex \<Rightarrow> sebeke \<Rightarrow> cagri" where
  "min_maliyet_akis_hesapla network_simplex s =
     (case mcf_graph_kur (G s) of
        Inl e \<Rightarrow> hata_donusu e s
      | Inr mcf_graph \<Rightarrow>
          (case network_simplex mcf_graph of
             Inl e \<Rightarrow> hata_donusu e s
           | Inr (flow_cost, flow_dict) \<Rightarrow>
               (let g' = akislari_yaz flow_dict (kenarlar (G s)) (G s);
                    akislar = akislari_topla (kenarlar g') [];
                    son = AList.update ''toplam_maliyet'' (Maliyet flow_cost)
                            (AList.update ''akislar'' (Akislar akislar) (sonuclar s))
                in \<lparr>donus = (akislar, flow_cost), yazilan = [],
                    nesne = s\<lparr>G := g', sonuclar := son\<rparr>\<rparr>)))"

subsection \<open>\<open>darbogazlari_bul\<close>\<close>




subsection \<open>\<open>ornek_sebeke_olustur\<close>\<close>


section \<open>Notions used to state the properties\<close>

text \<open>\<open>G[u][v]\<close>, when the edge is there.\<close>

definition hat_bul :: "dugum \<Rightarrow> dugum \<Rightarrow> ('n, 'e) digraph \<Rightarrow> 'e option" where
  "hat_bul u v g = (case map_of (komsuluk g) u of None \<Rightarrow> None | Some nb \<Rightarrow> map_of nb v)"

text \<open>The successor dictionaries with the \<open>'akis'\<close> attribute left out: the edges, their
  order, capacities and costs.\<close>

definition iskelet :: "('n, hat_oz) digraph \<Rightarrow> (dugum \<times> (dugum \<times> real \<times> real) list) list" where
  "iskelet g = map (\<lambda>(u, nb). (u, map (\<lambda>(v, d). (v, kapasite d, maliyet d)) nb)) (komsuluk g)"

definition kenar_iskeleti ::
  "(dugum \<times> dugum \<times> hat_oz) list \<Rightarrow> (dugum \<times> dugum \<times> real \<times> real) list" where
  "kenar_iskeleti es = map (\<lambda>(u, v, d). (u, v, kapasite d, maliyet d)) es"

text \<open>An association list stands for a dictionary when its keys are distinct. Every
  operation of the class keeps this (lemmas \<open>iyi_bicimli_*\<close> below).\<close>

definition iyi_bicimli :: "('n, 'e) digraph \<Rightarrow> bool" where
  "iyi_bicimli g = (distinct (map fst (komsuluk g)) \<and>
                    (\<forall>(u, nb) \<in> set (komsuluk g). distinct (map fst nb)))"

text \<open>What \<open>dugum_ekle\<close> stores: \<open>net\<close> is \<open>uretim - talep\<close> and \<open>tip\<close> is its sign.\<close>

fun ozellik_tutarli :: "dugum_oz option \<Rightarrow> bool" where
  "ozellik_tutarli None = True"
| "ozellik_tutarli (Some a) =
     (net a = uretim a - talep a \<and>
      tip a = (if net a > 0 then ''kaynak'' else if net a < 0 then ''hedef'' else ''transfer''))"

definition tutarli :: "(dugum_oz, 'e) digraph \<Rightarrow> bool" where
  "tutarli g = (distinct (map fst (dugumler g)) \<and>
                (\<forall>(n, a) \<in> set (dugumler g). ozellik_tutarli a))"





text \<open>The sum of the \<open>demand\<close> attributes of the optimisation graph; the library reads a
  missing attribute as 0.\<close>

fun talep_degeri :: "real option \<Rightarrow> real" where
  "talep_degeri None = 0"
| "talep_degeri (Some x) = x"

definition mcf_toplam_talep :: "mcf \<Rightarrow> real" where
  "mcf_toplam_talep m = sum_list (map (\<lambda>(n, d). talep_degeri d) (dugumler m))"

text \<open>Flow values as numbers, utilisation, and the record \<open>darbogazlari_bul\<close> builds for
  an edge.\<close>

fun akis_sayisi :: "deger \<Rightarrow> real" where
  "akis_sayisi (Sayi a) = a"
| "akis_sayisi (Sozluk x) = 0"






text \<open>Inflow and outflow of a node under the flows stored in the graph.\<close>

definition giren :: "('n, hat_oz) digraph \<Rightarrow> dugum \<Rightarrow> real" where
  "giren g n = sum_list (map (\<lambda>(u, v, d). akis_sayisi (akis d))
                               (filter (\<lambda>(u, v, d). v = n) (kenarlar g)))"

definition cikan :: "('n, hat_oz) digraph \<Rightarrow> dugum \<Rightarrow> real" where
  "cikan g n = sum_list (map (\<lambda>(u, v, d). akis_sayisi (akis d))
                               (filter (\<lambda>(u, v, d). u = n) (kenarlar g)))"

text \<open>The successor dictionaries after the write-back loop has visited the edges that
  \<open>P\<close> selects.\<close>

definition yazilmis ::
  "(dugum \<Rightarrow> dugum \<Rightarrow> bool) \<Rightarrow> flow_dict \<Rightarrow> (dugum \<times> (dugum \<times> hat_oz) list) list
     \<Rightarrow> (dugum \<times> (dugum \<times> hat_oz) list) list" where
  "yazilmis P fd K =
     map (\<lambda>(u, nb). (u, map (\<lambda>(v, d). (v, if P u v then d\<lparr>akis := yeni_akis fd u v\<rparr> else d)) nb)) K"

text \<open>Two objects that differ at most in the flows stored on their edges.\<close>

definition benzer :: "sebeke \<Rightarrow> sebeke \<Rightarrow> bool" where
  "benzer s1 s2 = (ad s1 = ad s2 \<and> sonuclar s1 = sonuclar s2 \<and>
     dugumler (G s1) = dugumler (G s2) \<and> iskelet (G s1) = iskelet (G s2))"

text \<open>A sequence of \<open>akis_ata\<close> calls, as in lines 330--331.\<close>

fun akislari_ata :: "(dugum \<times> dugum \<times> real) list \<Rightarrow> sebeke \<Rightarrow> sebeke" where
  "akislari_ata [] s = s"
| "akislari_ata ((k, h, v) # rest) s = akislari_ata rest (fst (akis_ata k h v s))"

section \<open>Example networks\<close>

text \<open>A source \<open>A\<close> producing 10, a sink \<open>B\<close> consuming 10, one line of capacity 10
  and unit cost 1 between them, with 7 as its initial flow.\<close>

definition ornek_ab :: sebeke where
  "ornek_ab =
     hat_ekle (Metin ''A'') (Metin ''B'') 10 1 7
    (dugum_ekle (Metin ''B'') 10 0
    (dugum_ekle (Metin ''A'') 0 10
    (ElektrikSebekesi ''AB'')))"

text \<open>The same network with a sink that consumes only 5.\<close>

definition ornek_dengesiz :: sebeke where
  "ornek_dengesiz =
     hat_ekle (Metin ''A'') (Metin ''B'') 10 1 7
    (dugum_ekle (Metin ''B'') 5 0
    (dugum_ekle (Metin ''A'') 0 10
    (ElektrikSebekesi ''AB'')))"


text \<open>The optimisation graphs of \<open>ornek_ab\<close> and \<open>ornek_tek\<close>.\<close>

definition mcf_ab :: mcf where
  "mcf_ab = \<lparr>dugumler = [(Metin ''A'', Some (- 10)), (Metin ''B'', Some 10)],
             komsuluk = [(Metin ''A'', [(Metin ''B'', \<lparr>capacity = 10, weight = 1\<rparr>)]),
                         (Metin ''B'', [])]\<rparr>"

definition mcf_tek :: mcf where
  "mcf_tek = \<lparr>dugumler = [(Metin ''F'', Some 0)], komsuluk = [(Metin ''F'', [])]\<rparr>"

text \<open>
  A table of what \<open>nx.network_simplex\<close> answers on these graphs. It raises
  \<open>NetworkXUnfeasible\<close> when the demands do not sum to zero. On \<open>mcf_ab\<close> the only flow
  that meets the demands sends 10 over the line, at cost 10; on \<open>mcf_tek\<close> there is nothing
  to send. Other graphs are not in the table.
\<close>

definition nx_ornek :: simplex where
  "nx_ornek m =
     (if mcf_toplam_talep m \<noteq> 0 then Inl NetworkXUnfeasible
      else if m = mcf_ab then Inr (10, [(Metin ''A'', [(Metin ''B'', 10)]), (Metin ''B'', [])])
      else if m = mcf_tek then Inr (0, [(Metin ''F'', [])])
      else Inl NetworkXError)"




lemmas graf_tanimlari =
  ElektrikSebekesi_def dugum_ekle_def hat_ekle_def akis_ata_def add_node_def add_edge_def
  uc_ekle_def varsay_def bos_graf_def has_edge_def has_node_def set_akis_def kenarlar_def
  hat_bul_def Let_def

section \<open>Dictionaries as association lists\<close>

lemma anahtar_var: "(k \<in> fst ` set xs) = (\<exists>y. map_of xs k = Some y)"
  by (induction xs) auto

lemma varsay_keys: "set (map fst (varsay k v al)) = insert k (set (map fst al))"
  by (auto simp: varsay_def)

lemma map_of_varsay_old: "k' \<in> set (map fst al) \<Longrightarrow> map_of (varsay k v al) k' = map_of al k'"
  by (auto simp: varsay_def map_add_def split: option.splits)

lemma map_of_varsay_new: "k \<notin> set (map fst al) \<Longrightarrow> map_of (varsay k v al) k = Some v"
  by (auto simp: varsay_def map_add_def anahtar_var split: option.splits)


lemma map_entry_ic:
  "(\<And>x. F (f x) = F x) \<Longrightarrow>
   map (\<lambda>(k, x). (k, F x)) (AList.map_entry k0 f al) = map (\<lambda>(k, x). (k, F x)) al"
  by (induction al) auto

lemma map_entry_map:
  "distinct (map fst al) \<Longrightarrow>
   AList.map_entry k f al = map (\<lambda>(k', x). (k', if k' = k then f x else x)) al"
proof (induction al)
  case Nil
  then show ?case by simp
next
  case (Cons p al)
  obtain k' x where p: "p = (k', x)" by (cases p)
  show ?case
  proof (cases "k' = k")
    case True
    then have "k \<notin> fst ` set al" using Cons.prems p by auto
    then have "map (\<lambda>(k', x). (k', if k' = k then f x else x)) al = al"
      by (intro map_idI) force
    then show ?thesis using True p by simp
  next
    case False
    then show ?thesis using Cons p by simp
  qed
qed

section \<open>The graph operations\<close>

lemma has_edge_iff: "has_edge u v g \<longleftrightarrow> hat_bul u v g \<noteq> None"
  by (auto simp: has_edge_def hat_bul_def anahtar_var split: option.splits)

lemma hat_bul_set_akis:
  "hat_bul u v (set_akis u v x g) = map_option (\<lambda>d. d\<lparr>akis := x\<rparr>) (hat_bul u v g)"
  by (auto simp: hat_bul_def set_akis_def AList.map_of_map_entry split: option.splits)

lemma dugumler_set_akis: "dugumler (set_akis u v x g) = dugumler g"
  by (simp add: set_akis_def)

lemma iskelet_set_akis: "iskelet (set_akis u v x g) = iskelet g"
  by (simp add: iskelet_def set_akis_def map_entry_ic)

lemma dugumler_add_edge:
  "dugumler (add_edge u v e g) = varsay v None (varsay u None (dugumler g))"
  by (simp add: add_edge_def uc_ekle_def Let_def)

lemma has_node_add_edge: "has_node u (add_edge u v e g) \<and> has_node v (add_edge u v e g)"
  by (simp add: has_node_def dugumler_add_edge varsay_keys del: set_map)

lemma hat_bul_add_edge: "hat_bul u v (add_edge u v e g) = Some e"
proof -
  have "u \<in> fst ` set (varsay v [] (varsay u [] (komsuluk g)))"
    using varsay_keys[of v "[]" "varsay u [] (komsuluk g)"] varsay_keys[of u "[]" "komsuluk g"]
    by auto
  then obtain nb where "map_of (varsay v [] (varsay u [] (komsuluk g))) u = Some nb"
    by (auto simp: anahtar_var)
  then show ?thesis
    by (simp add: hat_bul_def add_edge_def uc_ekle_def Let_def AList.map_of_map_entry
        AList.update_conv')
qed

lemma attrs_add_edge_old:
  "has_node n g \<Longrightarrow> map_of (dugumler (add_edge u v e g)) n = map_of (dugumler g) n"
  by (simp add: has_node_def dugumler_add_edge map_of_varsay_old varsay_keys del: set_map)

lemma attrs_add_edge_new:
  assumes "n = u \<or> n = v" "\<not> has_node n g"
  shows "map_of (dugumler (add_edge u v e g)) n = Some None"
proof (cases "n = u")
  case True
  have "map_of (varsay u None (dugumler g)) u = Some None"
    using assms True by (simp add: has_node_def map_of_varsay_new)
  moreover have "u \<in> set (map fst (varsay u None (dugumler g)))"
    by (simp add: varsay_keys del: set_map)
  ultimately show ?thesis using True
    by (simp add: dugumler_add_edge map_of_varsay_old del: set_map)
next
  case False
  then have nv: "n = v" using assms by simp
  have "v \<notin> set (map fst (varsay u None (dugumler g)))"
    using assms False nv by (simp add: has_node_def varsay_keys del: set_map)
  then show ?thesis using nv
    by (simp add: dugumler_add_edge map_of_varsay_new del: set_map)
qed

section \<open>\<open>akis_ata\<close>\<close>

text \<open>
  Claim C5, as stated: \<open>akis_ata\<close> fails with an error when no edge joins the ordered
  pair. The method has no \<open>raise\<close>: on a network without any line it prints its message
  and returns the object as it was.
\<close>

theorem akis_ata_missing_edge_returns_normally:
  "akis_ata (Metin ''A'') (Metin ''B'') 45 (ElektrikSebekesi ''T'')
     = (ElektrikSebekesi ''T'', [HatBulunamadi (Metin ''A'') (Metin ''B'')])"
  by (simp add: graf_tanimlari)

text \<open>
  Claim C5, amended: when no edge joins the ordered pair, \<open>akis_ata\<close> prints a message,
  leaves the object unchanged and returns it; when the edge exists, it prints nothing and
  stores the given value in the edge's flow field whatever the capacity is, leaving the
  edge's capacity and cost alone.
\<close>

theorem akis_ata_prints_or_overwrites:
  "(\<not> has_edge k h (G s) \<longrightarrow> akis_ata k h v s = (s, [HatBulunamadi k h])) \<and>
   (\<forall>d. hat_bul k h (G s) = Some d \<longrightarrow>
        snd (akis_ata k h v s) = [] \<and>
        hat_bul k h (G (fst (akis_ata k h v s))) = Some (d\<lparr>akis := Sayi v\<rparr>))"
  by (auto simp: akis_ata_def has_edge_iff hat_bul_set_akis)

theorem akis_ata_prints_or_overwrites_witness:
  "\<not> has_edge (Metin ''B'') (Metin ''A'') (G ornek_ab) \<and>
   akis_ata (Metin ''B'') (Metin ''A'') 500 ornek_ab
     = (ornek_ab, [HatBulunamadi (Metin ''B'') (Metin ''A'')]) \<and>
   hat_bul (Metin ''A'') (Metin ''B'') (G ornek_ab)
     = Some \<lparr>kapasite = 10, maliyet = 1, akis = Sayi 7\<rparr> \<and>
   snd (akis_ata (Metin ''A'') (Metin ''B'') 500 ornek_ab) = [] \<and>
   hat_bul (Metin ''A'') (Metin ''B'') (G (fst (akis_ata (Metin ''A'') (Metin ''B'') 500 ornek_ab)))
     = Some \<lparr>kapasite = 10, maliyet = 1, akis = Sayi 500\<rparr>"
proof -
  have yok: "\<not> has_edge (Metin ''B'') (Metin ''A'') (G ornek_ab)"
    by (simp add: ornek_ab_def graf_tanimlari)
  have var: "hat_bul (Metin ''A'') (Metin ''B'') (G ornek_ab)
     = Some \<lparr>kapasite = 10, maliyet = 1, akis = Sayi 7\<rparr>"
    by (simp add: ornek_ab_def graf_tanimlari)
  show ?thesis
    using yok var
      akis_ata_prints_or_overwrites[of "Metin ''B''" "Metin ''A''" ornek_ab 500]
      akis_ata_prints_or_overwrites[of "Metin ''A''" "Metin ''B''" ornek_ab 500]
    by simp
qed

section \<open>\<open>hat_ekle\<close>\<close>

lemma dugumleri_aktar_KeyError:
  "(n, None) \<in> set D \<Longrightarrow> dugumleri_aktar D m = Inl KeyError"
  by (induction D m rule: dugumleri_aktar.induct) auto

lemma ozelliksiz_dugum_hata:
  assumes "map_of (dugumler (G s)) n = Some None"
  shows "min_maliyet_akis_hesapla nx s = hata_donusu KeyError s"
proof -
  have "(n, None) \<in> set (dugumler (G s))"
    using assms by (rule map_of_SomeD)
  then show ?thesis
    by (simp add: min_maliyet_akis_hesapla_def mcf_graph_kur_def dugumleri_aktar_KeyError)
qed

text \<open>
  Claim C4, as stated: \<open>hat_ekle\<close> fails when an endpoint is not a node of the graph,
  and no dangling edge is created. On the empty network, where neither \<open>X\<close> nor \<open>Y\<close>
  is a node, \<open>hat_ekle\<close> returns a graph that has the edge from \<open>X\<close> to \<open>Y\<close>.
\<close>

theorem hat_ekle_creates_edge_between_unknown_nodes:
  "\<not> has_node (Metin ''X'') (G (ElektrikSebekesi ''T'')) \<and>
   \<not> has_node (Metin ''Y'') (G (ElektrikSebekesi ''T'')) \<and>
   has_edge (Metin ''X'') (Metin ''Y'')
     (G (hat_ekle (Metin ''X'') (Metin ''Y'') 10 1 0 (ElektrikSebekesi ''T'')))"
  by (simp add: graf_tanimlari)

text \<open>
  Claim C4, amended: \<open>hat_ekle\<close> checks nothing and never fails. It stores the edge with
  the given attributes, both endpoints are nodes afterwards, the nodes that were present
  keep their attributes, and an endpoint that was not present becomes a node without
  attributes. The missing endpoint shows only at solve time: a solve of the resulting
  network takes the \<open>except\<close> branch with a \<open>KeyError\<close>, whatever the solver is.
\<close>

theorem hat_ekle_adds_edge_and_missing_endpoints:
  "hat_bul k h (G (hat_ekle k h kap mal ak s))
     = Some \<lparr>kapasite = kap, maliyet = mal, akis = Sayi ak\<rparr> \<and>
   has_node k (G (hat_ekle k h kap mal ak s)) \<and> has_node h (G (hat_ekle k h kap mal ak s)) \<and>
   (\<forall>n. has_node n (G s) \<longrightarrow>
        map_of (dugumler (G (hat_ekle k h kap mal ak s))) n = map_of (dugumler (G s)) n) \<and>
   (\<forall>n. (n = k \<or> n = h) \<and> \<not> has_node n (G s) \<longrightarrow>
        map_of (dugumler (G (hat_ekle k h kap mal ak s))) n = Some None \<and>
        min_maliyet_akis_hesapla nx (hat_ekle k h kap mal ak s)
          = hata_donusu KeyError (hat_ekle k h kap mal ak s))"
proof -
  let ?e = "\<lparr>kapasite = kap, maliyet = mal, akis = Sayi ak\<rparr>"
  let ?s = "hat_ekle k h kap mal ak s"
  have g: "G ?s = add_edge k h ?e (G s)"
    by (simp add: hat_ekle_def)
  have a: "hat_bul k h (G ?s) = Some ?e"
    by (simp add: g hat_bul_add_edge)
  have b: "has_node k (G ?s) \<and> has_node h (G ?s)"
    by (simp add: g has_node_add_edge)
  have c: "\<forall>n. has_node n (G s) \<longrightarrow> map_of (dugumler (G ?s)) n = map_of (dugumler (G s)) n"
    by (simp add: g attrs_add_edge_old)
  have d: "\<forall>n. (n = k \<or> n = h) \<and> \<not> has_node n (G s) \<longrightarrow>
        map_of (dugumler (G ?s)) n = Some None \<and>
        min_maliyet_akis_hesapla nx ?s = hata_donusu KeyError ?s"
  proof (intro allI impI)
    fix n
    assume n: "(n = k \<or> n = h) \<and> \<not> has_node n (G s)"
    then have "map_of (dugumler (G ?s)) n = Some None"
      by (simp add: g attrs_add_edge_new)
    then show "map_of (dugumler (G ?s)) n = Some None \<and>
        min_maliyet_akis_hesapla nx ?s = hata_donusu KeyError ?s"
      by (simp add: ozelliksiz_dugum_hata)
  qed
  from a b c d show ?thesis by simp
qed

theorem hat_ekle_adds_edge_and_missing_endpoints_witness:
  "has_node (Metin ''A'') (G (dugum_ekle (Metin ''A'') 0 10 (ElektrikSebekesi ''T''))) \<and>
   map_of (dugumler (G (hat_ekle (Metin ''A'') (Metin ''B'') 10 1 0
                          (dugum_ekle (Metin ''A'') 0 10 (ElektrikSebekesi ''T''))))) (Metin ''A'')
     = map_of (dugumler (G (dugum_ekle (Metin ''A'') 0 10 (ElektrikSebekesi ''T'')))) (Metin ''A'') \<and>
   \<not> has_node (Metin ''B'') (G (dugum_ekle (Metin ''A'') 0 10 (ElektrikSebekesi ''T''))) \<and>
   map_of (dugumler (G (hat_ekle (Metin ''A'') (Metin ''B'') 10 1 0
                          (dugum_ekle (Metin ''A'') 0 10 (ElektrikSebekesi ''T''))))) (Metin ''B'')
     = Some None \<and>
   min_maliyet_akis_hesapla nx_ornek
       (hat_ekle (Metin ''A'') (Metin ''B'') 10 1 0
          (dugum_ekle (Metin ''A'') 0 10 (ElektrikSebekesi ''T'')))
     = hata_donusu KeyError
         (hat_ekle (Metin ''A'') (Metin ''B'') 10 1 0
            (dugum_ekle (Metin ''A'') 0 10 (ElektrikSebekesi ''T'')))"
proof -
  let ?s = "dugum_ekle (Metin ''A'') 0 10 (ElektrikSebekesi ''T'')"
  have var: "has_node (Metin ''A'') (G ?s)"
    by (simp add: graf_tanimlari)
  have yok: "\<not> has_node (Metin ''B'') (G ?s)"
    by (simp add: graf_tanimlari)
  show ?thesis
    using var yok
      hat_ekle_adds_edge_and_missing_endpoints
        [where k = "Metin ''A''" and h = "Metin ''B''" and s = ?s and kap = 10 and mal = 1
           and ak = 0 and nx = nx_ornek]
    by blast
qed

section \<open>\<open>min_maliyet_akis_hesapla\<close>: what a call leaves behind\<close>

lemma iskelet_akislari_yaz: "iskelet (akislari_yaz fd es g) = iskelet g"
  by (induction fd es g rule: akislari_yaz.induct) (simp_all add: iskelet_set_akis)

lemma dugumler_akislari_yaz: "dugumler (akislari_yaz fd es g) = dugumler g"
  by (induction fd es g rule: akislari_yaz.induct) (simp_all add: dugumler_set_akis)

text \<open>
  Claim C8: whenever the solve operation fails, that is, whenever the call takes the
  \<open>except\<close> branch and prints its message, the object after the call is the object before
  it; in particular every edge has the flow it had.
\<close>

theorem failed_solve_leaves_flows_intact:
  "yazilan (min_maliyet_akis_hesapla nx s) \<noteq> [] \<Longrightarrow>
   nesne (min_maliyet_akis_hesapla nx s) = s \<and>
   (\<forall>u v. hat_bul u v (G (nesne (min_maliyet_akis_hesapla nx s))) = hat_bul u v (G s))"
  by (auto simp: min_maliyet_akis_hesapla_def hata_donusu_def Let_def
      split: sum.splits prod.splits)

theorem failed_solve_leaves_flows_intact_witness:
  "yazilan (min_maliyet_akis_hesapla nx_ornek ornek_dengesiz) \<noteq> [] \<and>
   nesne (min_maliyet_akis_hesapla nx_ornek ornek_dengesiz) = ornek_dengesiz \<and>
   hat_bul (Metin ''A'') (Metin ''B'') (G (nesne (min_maliyet_akis_hesapla nx_ornek ornek_dengesiz)))
     = hat_bul (Metin ''A'') (Metin ''B'') (G ornek_dengesiz)"
proof -
  have h: "yazilan (min_maliyet_akis_hesapla nx_ornek ornek_dengesiz) \<noteq> []"
    by code_simp
  show ?thesis
    using h failed_solve_leaves_flows_intact[OF h] by simp
qed

text \<open>
  Claim C10: a successful call stores in \<open>sonuclar\<close>, under \<open>'akislar'\<close> and
  \<open>'toplam_maliyet'\<close>, the two values it returns; a failed call leaves \<open>sonuclar\<close> as it
  was; and in both cases the name, the nodes with their attributes, and the edges with
  their order, capacities and costs are unchanged, so that nothing but the flow fields and
  \<open>sonuclar\<close> is modified.
\<close>

theorem solve_modifies_only_flows_and_sonuclar:
  "(yazilan (min_maliyet_akis_hesapla nx s) = [] \<longrightarrow>
      sonuclar (nesne (min_maliyet_akis_hesapla nx s)) =
        AList.update ''toplam_maliyet'' (Maliyet (snd (donus (min_maliyet_akis_hesapla nx s))))
          (AList.update ''akislar'' (Akislar (fst (donus (min_maliyet_akis_hesapla nx s))))
             (sonuclar s))) \<and>
   (yazilan (min_maliyet_akis_hesapla nx s) \<noteq> [] \<longrightarrow>
      sonuclar (nesne (min_maliyet_akis_hesapla nx s)) = sonuclar s) \<and>
   ad (nesne (min_maliyet_akis_hesapla nx s)) = ad s \<and>
   dugumler (G (nesne (min_maliyet_akis_hesapla nx s))) = dugumler (G s) \<and>
   iskelet (G (nesne (min_maliyet_akis_hesapla nx s))) = iskelet (G s)"
  by (auto simp: min_maliyet_akis_hesapla_def hata_donusu_def Let_def iskelet_akislari_yaz
      dugumler_akislari_yaz split: sum.splits prod.splits)

theorem solve_modifies_only_flows_and_sonuclar_witness:
  "yazilan (min_maliyet_akis_hesapla nx_ornek ornek_ab) = [] \<and>
   sonuclar (nesne (min_maliyet_akis_hesapla nx_ornek ornek_ab)) =
     AList.update ''toplam_maliyet'' (Maliyet (snd (donus (min_maliyet_akis_hesapla nx_ornek ornek_ab))))
       (AList.update ''akislar'' (Akislar (fst (donus (min_maliyet_akis_hesapla nx_ornek ornek_ab))))
          (sonuclar ornek_ab)) \<and>
   yazilan (min_maliyet_akis_hesapla nx_ornek ornek_dengesiz) \<noteq> [] \<and>
   sonuclar (nesne (min_maliyet_akis_hesapla nx_ornek ornek_dengesiz)) = sonuclar ornek_dengesiz"
proof -
  have basari: "yazilan (min_maliyet_akis_hesapla nx_ornek ornek_ab) = []"
    by code_simp
  have hata: "yazilan (min_maliyet_akis_hesapla nx_ornek ornek_dengesiz) \<noteq> []"
    by code_simp
  show ?thesis
    using basari hata
      solve_modifies_only_flows_and_sonuclar[of nx_ornek ornek_ab]
      solve_modifies_only_flows_and_sonuclar[of nx_ornek ornek_dengesiz]
    by blast
qed

section \<open>\<open>min_maliyet_akis_hesapla\<close>: the flows written back\<close>

text \<open>
  Claim C1 says that after a successful solve every edge's flow field, and the flow
  assignment returned, hold the flows the solver computed. The code does otherwise on
  \<open>ornek_ab\<close>: the graph handed to the solver is \<open>mcf_ab\<close>, the solver's answer puts 10
  on the line from \<open>A\<close> to \<open>B\<close> at cost 10, and the call succeeds and returns that cost;
  but line 97 looks the tuple \<open>(u, v)\<close> up among the node keys of the solver's dictionary,
  does not find it, and line 100 writes 0. The flow field of the line and the returned
  assignment hold 0, not 10.
\<close>

theorem solve_writes_zero_instead_of_solver_flow:
  "mcf_graph_kur (G ornek_ab) = Inr mcf_ab \<and>
   nx_ornek mcf_ab = Inr (10, [(Metin ''A'', [(Metin ''B'', 10)]), (Metin ''B'', [])]) \<and>
   yazilan (min_maliyet_akis_hesapla nx_ornek ornek_ab) = [] \<and>
   donus (min_maliyet_akis_hesapla nx_ornek ornek_ab)
     = ([(Metin ''A'', [(Metin ''B'', Sayi 0)])], 10) \<and>
   hat_bul (Metin ''A'') (Metin ''B'') (G (nesne (min_maliyet_akis_hesapla nx_ornek ornek_ab)))
     = Some \<lparr>kapasite = 10, maliyet = 1, akis = Sayi 0\<rparr>"
  by code_simp

text \<open>
  Claim C3 says that after a successful solve the flows are feasible: at every node inflow
  minus outflow equals the node's net value, and every flow lies between 0 and the
  capacity. After the successful solve of \<open>ornek_ab\<close> the only line carries 0, so inflow
  minus outflow is 0 at both nodes, while the net value is 10 at \<open>A\<close> and \<open>- 10\<close> at
  \<open>B\<close>: the balance fails at both nodes, with either sign of the net value.
\<close>

theorem solve_leaves_nodes_unbalanced:
  "yazilan (min_maliyet_akis_hesapla nx_ornek ornek_ab) = [] \<and>
   giren (G (nesne (min_maliyet_akis_hesapla nx_ornek ornek_ab))) (Metin ''A'')
     - cikan (G (nesne (min_maliyet_akis_hesapla nx_ornek ornek_ab))) (Metin ''A'') = 0 \<and>
   map_of (dugumler (G (nesne (min_maliyet_akis_hesapla nx_ornek ornek_ab)))) (Metin ''A'')
     = Some (Some \<lparr>talep = 0, uretim = 10, net = 10, tip = ''kaynak''\<rparr>) \<and>
   giren (G (nesne (min_maliyet_akis_hesapla nx_ornek ornek_ab))) (Metin ''B'')
     - cikan (G (nesne (min_maliyet_akis_hesapla nx_ornek ornek_ab))) (Metin ''B'') = 0 \<and>
   map_of (dugumler (G (nesne (min_maliyet_akis_hesapla nx_ornek ornek_ab)))) (Metin ''B'')
     = Some (Some \<lparr>talep = 10, uretim = 0, net = - 10, tip = ''hedef''\<rparr>)"
  by code_simp

section \<open>Invariants of the networks the class builds\<close>

text \<open>
  \<open>iyi_bicimli\<close> and \<open>tutarli\<close> hold of a new object and are kept by every method, so
  they hold of every network a caller can build.
\<close>

lemma set_map_entry: "set (AList.map_entry k f al) \<subseteq> set al \<union> {(k, f x) | x. (k, x) \<in> set al}"
  by (induction al) auto

lemma set_update_alt: "set (AList.update k v al) \<subseteq> insert (k, v) (set al)"
  by (induction al) auto

lemma iyi_bicimli_bos: "iyi_bicimli bos_graf"
  by (simp add: iyi_bicimli_def bos_graf_def)

lemma distinct_varsay: "distinct (map fst al) \<Longrightarrow> distinct (map fst (varsay k v al))"
  by (auto simp: varsay_def)

lemma iyi_bicimli_uc_ekle: "iyi_bicimli g \<Longrightarrow> iyi_bicimli (uc_ekle n g)"
  by (auto simp: iyi_bicimli_def uc_ekle_def varsay_def)

lemma iyi_bicimli_add_node: "iyi_bicimli g \<Longrightarrow> iyi_bicimli (add_node n a g)"
  by (auto simp: iyi_bicimli_def add_node_def varsay_def)

lemma iyi_bicimli_map_entry:
  assumes "iyi_bicimli g" and "\<And>nb. distinct (map fst nb) \<Longrightarrow> distinct (map fst (f nb))"
  shows "iyi_bicimli (g\<lparr>komsuluk := AList.map_entry u f (komsuluk g)\<rparr>)"
proof -
  have "distinct (map fst (AList.map_entry u f (komsuluk g)))"
    using assms(1) by (simp add: iyi_bicimli_def AList.distinct_map_entry)
  moreover have "distinct (map fst nb)" if "(w, nb) \<in> set (AList.map_entry u f (komsuluk g))" for w nb
    using that set_map_entry[of u f "komsuluk g"] assms by (fastforce simp: iyi_bicimli_def)
  ultimately show ?thesis by (auto simp: iyi_bicimli_def)
qed

lemma iyi_bicimli_add_edge: "iyi_bicimli g \<Longrightarrow> iyi_bicimli (add_edge u v e g)"
  unfolding add_edge_def Let_def
  by (intro iyi_bicimli_map_entry iyi_bicimli_uc_ekle) (simp_all add: AList.distinct_update)

lemma iyi_bicimli_set_akis: "iyi_bicimli g \<Longrightarrow> iyi_bicimli (set_akis u v x g)"
  unfolding set_akis_def
  by (intro iyi_bicimli_map_entry) (simp_all add: AList.distinct_map_entry)

lemma iyi_bicimli_akislari_yaz: "iyi_bicimli g \<Longrightarrow> iyi_bicimli (akislari_yaz fd es g)"
  by (induction fd es g rule: akislari_yaz.induct) (simp_all add: iyi_bicimli_set_akis)

lemma tutarli_bos: "tutarli bos_graf"
  by (simp add: tutarli_def bos_graf_def)

lemma tutarli_add_node: "tutarli g \<Longrightarrow> ozellik_tutarli (Some a) \<Longrightarrow> tutarli (add_node n a g)"
  using set_update_alt[of n "Some a" "dugumler g"]
  by (auto simp: tutarli_def add_node_def AList.distinct_update simp del: ozellik_tutarli.simps)

lemma tutarli_add_edge: "tutarli g \<Longrightarrow> tutarli (add_edge u v e g)"
  by (auto simp: tutarli_def dugumler_add_edge varsay_def)

lemma tutarli_set_akis: "tutarli g \<Longrightarrow> tutarli (set_akis u v x g)"
  by (simp add: tutarli_def dugumler_set_akis)

lemma iyi_ElektrikSebekesi: "iyi_bicimli (G (ElektrikSebekesi a)) \<and> tutarli (G (ElektrikSebekesi a))"
  by (simp add: ElektrikSebekesi_def iyi_bicimli_bos tutarli_bos)

lemma iyi_dugum_ekle:
  "iyi_bicimli (G s) \<and> tutarli (G s) \<Longrightarrow>
   iyi_bicimli (G (dugum_ekle n tlp urt s)) \<and> tutarli (G (dugum_ekle n tlp urt s))"
  by (simp add: dugum_ekle_def Let_def iyi_bicimli_add_node tutarli_add_node)

lemma iyi_hat_ekle:
  "iyi_bicimli (G s) \<and> tutarli (G s) \<Longrightarrow>
   iyi_bicimli (G (hat_ekle k h kap mal ak s)) \<and> tutarli (G (hat_ekle k h kap mal ak s))"
  by (simp add: hat_ekle_def iyi_bicimli_add_edge tutarli_add_edge)

lemma iyi_akis_ata:
  "iyi_bicimli (G s) \<and> tutarli (G s) \<Longrightarrow>
   iyi_bicimli (G (fst (akis_ata k h v s))) \<and> tutarli (G (fst (akis_ata k h v s)))"
  by (simp add: akis_ata_def iyi_bicimli_set_akis tutarli_set_akis)

lemma iyi_min_maliyet_akis_hesapla:
  "iyi_bicimli (G s) \<and> tutarli (G s) \<Longrightarrow>
   iyi_bicimli (G (nesne (min_maliyet_akis_hesapla nx s))) \<and>
   tutarli (G (nesne (min_maliyet_akis_hesapla nx s)))"
  by (auto simp: min_maliyet_akis_hesapla_def hata_donusu_def Let_def iyi_bicimli_akislari_yaz
      tutarli_def dugumler_akislari_yaz split: sum.splits prod.splits)

section \<open>\<open>min_maliyet_akis_hesapla\<close> on an unbalanced network\<close>












section \<open>\<open>darbogazlari_bul\<close>\<close>








section \<open>The write-back loop\<close>

lemma keys_yazilmis: "map fst (yazilmis P fd K) = map fst K"
  by (simp add: yazilmis_def o_def case_prod_unfold)

lemma yaz_adim:
  assumes d1: "distinct (map fst K)" and d2: "\<forall>(u, nb) \<in> set K. distinct (map fst nb)"
  shows "AList.map_entry u (AList.map_entry v (\<lambda>d. d\<lparr>akis := yeni_akis fd u v\<rparr>)) (yazilmis P fd K)
       = yazilmis (\<lambda>a b. P a b \<or> (a = u \<and> b = v)) fd K"
proof -
  let ?f = "AList.map_entry v (\<lambda>d. d\<lparr>akis := yeni_akis fd u v\<rparr>)"
  have "distinct (map fst (yazilmis P fd K))" using d1 by (simp add: keys_yazilmis)
  then have "AList.map_entry u ?f (yazilmis P fd K)
     = map (\<lambda>(k', x). (k', if k' = u then ?f x else x)) (yazilmis P fd K)"
    by (rule map_entry_map)
  also have "\<dots> = yazilmis (\<lambda>a b. P a b \<or> (a = u \<and> b = v)) fd K"
    unfolding yazilmis_def map_map
  proof (rule map_cong[OF refl])
    fix p assume p: "p \<in> set K"
    obtain a nb where pa: "p = (a, nb)" by (cases p)
    have dn: "distinct (map fst nb)" using d2 p pa by auto
    let ?nb' = "map (\<lambda>(v, d). (v, if P a v then d\<lparr>akis := yeni_akis fd a v\<rparr> else d)) nb"
    have "distinct (map fst ?nb')" using dn by (simp add: o_def case_prod_unfold)
    then have "?f ?nb' = map (\<lambda>(k', x). (k', if k' = v then x\<lparr>akis := yeni_akis fd u v\<rparr> else x)) ?nb'"
      by (rule map_entry_map)
    then show "((\<lambda>(k', x). (k', if k' = u then ?f x else x)) \<circ>
            (\<lambda>(u, nb). (u, map (\<lambda>(v, d). (v, if P u v then d\<lparr>akis := yeni_akis fd u v\<rparr> else d)) nb))) p
        = (case p of (ua, nb) \<Rightarrow>
            (ua, map (\<lambda>(va, d). (va, if P ua va \<or> ua = u \<and> va = v then d\<lparr>akis := yeni_akis fd ua va\<rparr> else d)) nb))"
      by (auto simp: pa)
  qed
  finally show ?thesis .
qed

lemma akislari_yaz_yazilmis:
  assumes d1: "distinct (map fst K)" and d2: "\<forall>(u, nb) \<in> set K. distinct (map fst nb)"
  shows "komsuluk g = yazilmis P fd K \<Longrightarrow>
     komsuluk (akislari_yaz fd es g)
       = yazilmis (\<lambda>a b. P a b \<or> (a, b) \<in> set (map (\<lambda>(u, v, d). (u, v)) es)) fd K"
proof (induction fd es g arbitrary: P rule: akislari_yaz.induct)
  case (1 flow_dict g)
  then show ?case by simp
next
  case (2 flow_dict u v d rest g)
  have "komsuluk (set_akis u v (yeni_akis flow_dict u v) g)
      = yazilmis (\<lambda>a b. P a b \<or> (a = u \<and> b = v)) flow_dict K"
    using yaz_adim[OF d1 d2, of u v flow_dict P] 2(2) by (simp add: set_akis_def)
  from "2.IH"[OF this] show ?case
    by (simp add: disj_ac)
qed

lemma kenar_uyeligi:
  "(u, nb) \<in> set (komsuluk g) \<Longrightarrow> (v, d) \<in> set nb \<Longrightarrow> (u, v, d) \<in> set (kenarlar g)"
  by (force simp: kenarlar_def)

lemma akislari_yaz_tam:
  assumes "iyi_bicimli g"
  shows "komsuluk (akislari_yaz fd (kenarlar g) g) = yazilmis (\<lambda>a b. True) fd (komsuluk g)"
proof -
  have d1: "distinct (map fst (komsuluk g))"
    and d2: "\<forall>(u, nb) \<in> set (komsuluk g). distinct (map fst nb)"
    using assms by (auto simp: iyi_bicimli_def)
  have bos: "komsuluk g = yazilmis (\<lambda>a b. False) fd (komsuluk g)"
    by (simp add: yazilmis_def case_prod_unfold)
  have "komsuluk (akislari_yaz fd (kenarlar g) g)
      = yazilmis (\<lambda>a b. False \<or> (a, b) \<in> set (map (\<lambda>(u, v, d). (u, v)) (kenarlar g))) fd (komsuluk g)"
    using bos by (rule akislari_yaz_yazilmis[OF d1 d2])
  also have "\<dots> = yazilmis (\<lambda>a b. True) fd (komsuluk g)"
    unfolding yazilmis_def
  proof (rule map_cong[OF refl])
    fix p assume p: "p \<in> set (komsuluk g)"
    obtain u nb where pu: "p = (u, nb)" by (cases p)
    have "map (\<lambda>(v, d). (v, if False \<or> (u, v) \<in> set (map (\<lambda>(u, v, d). (u, v)) (kenarlar g))
                               then d\<lparr>akis := yeni_akis fd u v\<rparr> else d)) nb
        = map (\<lambda>(v, d). (v, if True then d\<lparr>akis := yeni_akis fd u v\<rparr> else d)) nb"
    proof (rule map_cong[OF refl])
      fix q assume q: "q \<in> set nb"
      obtain v d where qv: "q = (v, d)" by (cases q)
      have "(u, v, d) \<in> set (kenarlar g)" using p q pu qv by (simp add: kenar_uyeligi)
      then have "(u, v) \<in> set (map (\<lambda>(u, v, d). (u, v)) (kenarlar g))" by force
      then show "(case q of (v, d) \<Rightarrow> (v, if False \<or> (u, v) \<in> set (map (\<lambda>(u, v, d). (u, v)) (kenarlar g))
                               then d\<lparr>akis := yeni_akis fd u v\<rparr> else d))
         = (case q of (v, d) \<Rightarrow> (v, if True then d\<lparr>akis := yeni_akis fd u v\<rparr> else d))"
        by (simp add: qv)
    qed
    then show "(case p of (u, nb) \<Rightarrow> (u, map (\<lambda>(v, d). (v, if False \<or> (u, v) \<in> set (map (\<lambda>(u, v, d). (u, v)) (kenarlar g))
                               then d\<lparr>akis := yeni_akis fd u v\<rparr> else d)) nb))
       = (case p of (u, nb) \<Rightarrow> (u, map (\<lambda>(v, d). (v, if True then d\<lparr>akis := yeni_akis fd u v\<rparr> else d)) nb))"
      by (simp add: pu)
  qed
  finally show ?thesis .
qed

lemma yazilmis_iskelet:
  "yazilmis (\<lambda>a b. True) fd (komsuluk g) =
     map (\<lambda>(u, nb). (u, map (\<lambda>(v, c, w). (v, \<lparr>kapasite = c, maliyet = w, akis = yeni_akis fd u v\<rparr>)) nb))
       (iskelet g)"
  by (simp add: yazilmis_def iskelet_def o_def case_prod_unfold)

lemma kenar_iskeleti_iskelet:
  "kenar_iskeleti (kenarlar g) = concat (map (\<lambda>(u, nb). map (\<lambda>(v, c, w). (u, v, c, w)) nb) (iskelet g))"
  by (simp add: kenar_iskeleti_def kenarlar_def iskelet_def map_concat o_def case_prod_unfold)

lemma hatlari_aktar_iskelet:
  "kenar_iskeleti es1 = kenar_iskeleti es2 \<Longrightarrow> hatlari_aktar es1 m = hatlari_aktar es2 m"
proof (induction es1 m arbitrary: es2 rule: hatlari_aktar.induct)
  case (1 m)
  then show ?case by (simp add: kenar_iskeleti_def)
next
  case (2 u v d rest m)
  then obtain e2 rest2 where es2: "es2 = e2 # rest2" by (cases es2) (auto simp: kenar_iskeleti_def)
  obtain u2 v2 d2 where e2: "e2 = (u2, v2, d2)" by (cases e2)
  have h: "u2 = u" "v2 = v" "kapasite d2 = kapasite d" "maliyet d2 = maliyet d"
    "kenar_iskeleti rest = kenar_iskeleti rest2"
    using 2(2) by (simp_all add: es2 e2 kenar_iskeleti_def)
  show ?case using "2.IH"[OF h(5)] h by (simp add: es2 e2)
qed

text \<open>
  Whenever no key of the solver's dictionary is a pair, which is so when the keys are
  nodes and the nodes are strings or integers, the test of line 97 fails for every edge
  and a successful solve stores 0 on every line.
\<close>

lemma solve_stores_zero_on_every_line:
  assumes iyi: "iyi_bicimli (G s)"
    and m: "mcf_graph_kur (G s) = Inr m"
    and nx: "nx m = Inr (c, fd)"
    and cift: "\<forall>u v. map_of fd (Demet u v) = None"
  shows "komsuluk (G (nesne (min_maliyet_akis_hesapla nx s)))
       = map (\<lambda>(u, nb). (u, map (\<lambda>(v, d). (v, d\<lparr>akis := Sayi 0\<rparr>)) nb)) (komsuluk (G s))"
proof -
  have "komsuluk (G (nesne (min_maliyet_akis_hesapla nx s)))
      = komsuluk (akislari_yaz fd (kenarlar (G s)) (G s))"
    using m nx by (simp add: min_maliyet_akis_hesapla_def Let_def)
  also have "\<dots> = yazilmis (\<lambda>a b. True) fd (komsuluk (G s))"
    using iyi by (rule akislari_yaz_tam)
  also have "\<dots> = map (\<lambda>(u, nb). (u, map (\<lambda>(v, d). (v, d\<lparr>akis := Sayi 0\<rparr>)) nb)) (komsuluk (G s))"
    using cift by (simp add: yazilmis_def yeni_akis_def)
  finally show ?thesis .
qed

section \<open>\<open>min_maliyet_akis_hesapla\<close> does not read the flows\<close>

lemma iskelet_keys: "map fst (iskelet g) = map fst (komsuluk g)"
  by (simp add: iskelet_def o_def case_prod_unfold)

lemma iskelet_ic_keys:
  "map (\<lambda>(u, nb). map fst nb) (iskelet g) = map (\<lambda>(u, nb). map fst nb) (komsuluk g)"
  by (simp add: iskelet_def o_def case_prod_unfold)

lemma iyi_bicimli_iskelet:
  "iyi_bicimli g = (distinct (map fst (iskelet g)) \<and> (\<forall>ks \<in> set (map (\<lambda>(u, nb). map fst nb) (iskelet g)). distinct ks))"
  unfolding iskelet_keys iskelet_ic_keys by (auto simp: iyi_bicimli_def)

lemma benzer_iyi_bicimli: "benzer s1 s2 \<Longrightarrow> iyi_bicimli (G s1) = iyi_bicimli (G s2)"
  by (simp add: benzer_def iyi_bicimli_iskelet)

lemma benzer_cozum:
  assumes b: "benzer s1 s2" and iyi: "iyi_bicimli (G s2)"
  shows "donus (min_maliyet_akis_hesapla nx s1) = donus (min_maliyet_akis_hesapla nx s2) \<and>
         yazilan (min_maliyet_akis_hesapla nx s1) = yazilan (min_maliyet_akis_hesapla nx s2) \<and>
         (yazilan (min_maliyet_akis_hesapla nx s2) = [] \<longrightarrow>
            nesne (min_maliyet_akis_hesapla nx s1) = nesne (min_maliyet_akis_hesapla nx s2))"
proof -
  have iyi1: "iyi_bicimli (G s1)" using b iyi by (simp add: benzer_iyi_bicimli)
  have dg: "dugumler (G s1) = dugumler (G s2)" and isk: "iskelet (G s1) = iskelet (G s2)"
    and ad: "ad s1 = ad s2" and son: "sonuclar s1 = sonuclar s2"
    using b by (simp_all add: benzer_def)
  have ke: "kenar_iskeleti (kenarlar (G s1)) = kenar_iskeleti (kenarlar (G s2))"
    by (simp add: kenar_iskeleti_iskelet isk)
  have ha: "hatlari_aktar (kenarlar (G s1)) m = hatlari_aktar (kenarlar (G s2)) m" for m
    using ke by (rule hatlari_aktar_iskelet)
  have yz: "akislari_yaz fd (kenarlar (G s1)) (G s1) = akislari_yaz fd (kenarlar (G s2)) (G s2)" for fd
  proof (rule digraph.equality)
    show "dugumler (akislari_yaz fd (kenarlar (G s1)) (G s1)) = dugumler (akislari_yaz fd (kenarlar (G s2)) (G s2))"
      by (simp add: dugumler_akislari_yaz dg)
    show "komsuluk (akislari_yaz fd (kenarlar (G s1)) (G s1)) = komsuluk (akislari_yaz fd (kenarlar (G s2)) (G s2))"
      by (simp add: akislari_yaz_tam[OF iyi1] akislari_yaz_tam[OF iyi] yazilmis_iskelet isk)
  qed simp
  have s12: "s1\<lparr>G := g, sonuclar := x\<rparr> = s2\<lparr>G := g, sonuclar := x\<rparr>" for g x
    using ad by (intro sebeke.equality) simp_all
  have mk: "mcf_graph_kur (G s1) = mcf_graph_kur (G s2)"
    by (simp add: mcf_graph_kur_def dg ha split: sum.splits)
  show ?thesis
    by (simp add: min_maliyet_akis_hesapla_def mk yz son s12 hata_donusu_def Let_def
        split: sum.splits prod.splits)
qed

lemma benzer_akis_ata: "benzer (fst (akis_ata k h v s)) s"
  by (simp add: benzer_def akis_ata_def iskelet_set_akis dugumler_set_akis)

lemma benzer_trans: "benzer a b \<Longrightarrow> benzer b c \<Longrightarrow> benzer a c"
  by (simp add: benzer_def)

lemma benzer_akislari_ata: "benzer (akislari_ata atamalar s) s"
proof (induction atamalar s rule: akislari_ata.induct)
  case (1 s)
  then show ?case by (simp add: benzer_def)
next
  case (2 k h v rest s)
  then show ?case using benzer_akis_ata[of k h v s] benzer_trans by auto
qed

text \<open>
  Claim C7: changing the flows of any edges with \<open>akis_ata\<close> before solving changes
  neither the flow assignment nor the total cost that the solve returns, nor what it
  prints; and when the solve succeeds, the object it leaves behind, with the flows written
  on its edges, is the same as without the changes.
\<close>

theorem solve_ignores_manual_flows:
  assumes "iyi_bicimli (G s)"
  shows "donus (min_maliyet_akis_hesapla nx (akislari_ata atamalar s))
           = donus (min_maliyet_akis_hesapla nx s) \<and>
         yazilan (min_maliyet_akis_hesapla nx (akislari_ata atamalar s))
           = yazilan (min_maliyet_akis_hesapla nx s) \<and>
         (yazilan (min_maliyet_akis_hesapla nx s) = [] \<longrightarrow>
            nesne (min_maliyet_akis_hesapla nx (akislari_ata atamalar s))
              = nesne (min_maliyet_akis_hesapla nx s))"
  using benzer_cozum[OF benzer_akislari_ata assms] .

theorem solve_ignores_manual_flows_witness:
  "iyi_bicimli (G ornek_ab) \<and>
   hat_bul (Metin ''A'') (Metin ''B'') (G (akislari_ata [(Metin ''A'', Metin ''B'', 3)] ornek_ab))
     = Some \<lparr>kapasite = 10, maliyet = 1, akis = Sayi 3\<rparr> \<and>
   yazilan (min_maliyet_akis_hesapla nx_ornek ornek_ab) = [] \<and>
   donus (min_maliyet_akis_hesapla nx_ornek (akislari_ata [(Metin ''A'', Metin ''B'', 3)] ornek_ab))
     = donus (min_maliyet_akis_hesapla nx_ornek ornek_ab) \<and>
   nesne (min_maliyet_akis_hesapla nx_ornek (akislari_ata [(Metin ''A'', Metin ''B'', 3)] ornek_ab))
     = nesne (min_maliyet_akis_hesapla nx_ornek ornek_ab)"
proof -
  have iyi: "iyi_bicimli (G ornek_ab)"
    by code_simp
  have elle: "hat_bul (Metin ''A'') (Metin ''B'')
      (G (akislari_ata [(Metin ''A'', Metin ''B'', 3)] ornek_ab))
     = Some \<lparr>kapasite = 10, maliyet = 1, akis = Sayi 3\<rparr>"
    by code_simp
  have basari: "yazilan (min_maliyet_akis_hesapla nx_ornek ornek_ab) = []"
    by code_simp
  show ?thesis
    using iyi elle basari
      solve_ignores_manual_flows[OF iyi, of nx_ornek "[(Metin ''A'', Metin ''B'', 3)]"]
    by blast
qed

end
